theory Spec2Isabelle
  imports Main
begin

section \<open>Data model of \<open>src/frontend/src/App.tsx\<close>\<close>

text \<open>
  The component \<open>App\<close> keeps seven pieces of state (the \<open>useState\<close> hooks) and reacts to
  events of a table widget and a paginator. Each handler is embedded as a function from
  the state before to the state after, together with the list of effects it performs
  (alerts, console errors, outgoing requests). An \<open>async\<close> handler is embedded in two
  parts: the part that runs up to the first \<open>await\<close>, and the continuation that runs when
  the response arrives. The continuation only calls state setters, so it is a function of
  the state at the time it runs.

  Numbers are mathematical integers. The source computes with doubles, which are these
  integers on the safe integers (\<open>Number.isSafeInteger\<close>, magnitude below \<open>2 ^ 53\<close>);
  every statement about the text of a request is made for safe integers. The text the
  user types is a list of UTF-16 code units; the texts the component builds itself
  (addresses, messages) are ASCII strings.
\<close>

type_synonym code_unit = int

record Artwork =
  art_id :: int
  title :: string
  place_of_origin :: "string option"
  artist_display :: string
  inscriptions :: "string option"
  date_start :: int
  date_end :: int

text \<open>The field \<open>id\<close> of the source is \<open>art_id\<close>, since \<open>id\<close> is the identity of HOL.\<close>

text \<open>
  A state event of the table widget may come without a \<open>page\<close>, which is why the source
  tests \<open>lazyState.page\<close> before adding one: \<open>None\<close> stands for \<open>undefined\<close>.
\<close>

record DataTableStateEvent =
  first :: int
  rows :: int
  page :: "int option"
  sortField :: string
  sortOrder :: "int option"
  filters :: "(string \<times> string) list"
  multiSortMeta :: "(string \<times> int) list option"

record PaginatorPageChangeEvent =
  ev_first :: int
  ev_rows :: int
  ev_page :: int
  ev_pageCount :: int

text \<open>
  \<open>artworks\<close> is declared \<open>Artwork[]\<close>, but it is assigned \<open>result.data\<close> of an untyped
  response body, which is \<open>undefined\<close> when the body has no such member: \<open>None\<close> stands
  for \<open>undefined\<close>. \<open>selection\<close> is a \<open>Set<number>\<close>, kept as the list of its members in
  insertion order.
\<close>

record app_state =
  loading :: bool
  artworks :: "Artwork list option"
  totalRecords :: int
  selection :: "int list"
  isPanelOpen :: bool
  numToSelect :: "code_unit list"
  lazyState :: DataTableStateEvent

datatype effect = Alert string | ConsoleError string | Request string

datatype js_error = TypeError

text \<open>
  A decoded response body, which the source leaves untyped: \<open>data\<close> is \<open>None\<close> when the
  member is absent and an array of records otherwise, \<open>pagination\<close> is \<open>None\<close> when the
  member is absent and otherwise holds its integer \<open>total\<close>. Members of other shapes are
  not modelled.
\<close>

record api_body =
  data :: "Artwork list option"
  pagination :: "int option"

text \<open>
  What \<open>await fetch(apiUrl)\<close> followed by \<open>await response.json()\<close> can do: the first
  promise rejects (transport failure), the second rejects (the body is not JSON), or both
  resolve.
\<close>

datatype fetch_outcome = FetchRejected | JsonRejected | Decoded api_body

definition initial_state :: app_state where
  "initial_state =
     \<lparr>loading = False, artworks = Some [], totalRecords = 0, selection = [],
      isPanelOpen = False, numToSelect = [],
      lazyState = \<lparr>first = 0, rows = 10, page = Some 0, sortField = '''', sortOrder = None,
                   filters = [], multiSortMeta = None\<rparr>\<rparr>"

section \<open>The built-ins the component calls\<close>

subsection \<open>\<open>Set\<close>\<close>

text \<open>
  A \<open>Set\<close> iterates in insertion order: \<open>add\<close> appends a value that is not yet a member,
  \<open>delete\<close> removes it, \<open>new Set(iterable)\<close> adds the elements one after the other, and
  \<open>forEach\<close> is a \<open>fold\<close> over the members.
\<close>

definition set_has :: "int list \<Rightarrow> int \<Rightarrow> bool" where
  "set_has s x = (x \<in> set s)"

definition set_add :: "int \<Rightarrow> int list \<Rightarrow> int list" where
  "set_add x s = (if set_has s x then s else s @ [x])"

definition set_delete :: "int \<Rightarrow> int list \<Rightarrow> int list" where
  "set_delete x s = filter (\<lambda>y. y \<noteq> x) s"

definition new_Set :: "int list \<Rightarrow> int list" where
  "new_Set xs = fold set_add xs []"

definition set_size :: "int list \<Rightarrow> nat" where
  "set_size s = length s"

subsection \<open>\<open>parseInt(string, 10)\<close> and the rendering of a number in a template literal\<close>

text \<open>The code units of an ASCII string.\<close>

definition lit :: "string \<Rightarrow> code_unit list" where
  "lit s = map of_char s"

text \<open>
  The white space that \<open>parseInt\<close> skips: TAB, LF, VT, FF, CR, the space, the no-break
  space, the other space separators of Unicode (U+1680, U+2000 to U+200A, U+202F,
  U+205F, U+3000), the line and paragraph separators (U+2028, U+2029) and the byte order
  mark (U+FEFF). Each is one code unit.
\<close>

definition isWhiteSpace :: "code_unit \<Rightarrow> bool" where
  "isWhiteSpace c =
     (c \<in> set [0x9, 0xA, 0xB, 0xC, 0xD, 0x20, 0xA0, 0x1680, 0x2028, 0x2029, 0x202F, 0x205F,
               0x3000, 0xFEFF]
      \<or> (0x2000 \<le> c \<and> c \<le> 0x200A))"

definition isDigit :: "code_unit \<Rightarrow> bool" where
  "isDigit c = (48 \<le> c \<and> c \<le> 57)"

definition digitValue :: "code_unit \<Rightarrow> int" where
  "digitValue c = c - 48"

definition mathInt :: "code_unit list \<Rightarrow> int" where
  "mathInt Z = foldl (\<lambda>acc c. 10 * acc + digitValue c) 0 Z"

text \<open>
  \<open>parseInt\<close> drops leading white space, reads one optional sign (43 is \<open>+\<close>, 45 is \<open>-\<close>),
  and takes the longest run of decimal digits that follows; with no digit there the
  result is \<open>NaN\<close>, which is \<open>None\<close> here. The result is the integer the digits denote; the
  number the source gets is the double nearest to it, which has the same sign and is the
  integer itself when that is safe.
\<close>

definition parseInt :: "code_unit list \<Rightarrow> int option" where
  "parseInt inputString =
     (let S = dropWhile isWhiteSpace inputString;
          sign = (if S \<noteq> [] \<and> hd S = 45 then - 1 else 1 :: int);
          S' = (if S \<noteq> [] \<and> (hd S = 43 \<or> hd S = 45) then tl S else S);
          Z = takeWhile isDigit S'
      in if Z = [] then None else Some (sign * mathInt Z))"

definition isSafeInteger :: "int \<Rightarrow> bool" where
  "isSafeInteger n = (- (2 ^ 53) < n \<and> n < 2 ^ 53)"

text \<open>
  A number inside a template literal is rendered by \<open>toString\<close>: for a safe integer, its
  decimal digits after a minus sign when it is negative. (Beyond the safe integers the
  source renders the nearest double, in exponent notation from \<open>10 ^ 21\<close> on.)
  \<open>digits10\<close> is applied to numbers that are not negative.
\<close>

function digits10 :: "int \<Rightarrow> string" where
  "digits10 n =
     (if n < 10 then [char_of (48 + n)]
      else digits10 (n div 10) @ [char_of (48 + n mod 10)])"
  by pat_completeness auto
termination
  by (relation "measure nat") auto

declare digits10.simps [simp del]

definition toString :: "int \<Rightarrow> string" where
  "toString n = (if n < 0 then CHR ''-'' # digits10 (- n) else digits10 n)"

section \<open>The page fetch (\<open>useEffect\<close> on \<open>lazyState\<close>)\<close>

text \<open>
  \<open>lazyState.page ? lazyState.page + 1 : 1\<close>: \<open>undefined\<close> and 0 are falsy, every other
  integer is truthy.
\<close>

definition apiPage :: "DataTableStateEvent \<Rightarrow> int" where
  "apiPage ls = (case page ls of None \<Rightarrow> 1 | Some p \<Rightarrow> if p \<noteq> 0 then p + 1 else 1)"

definition artworks_url :: "DataTableStateEvent \<Rightarrow> string" where
  "artworks_url ls =
     ''https://api.artic.edu/api/v1/artworks?page='' @ toString (apiPage ls)
       @ ''&limit='' @ toString (rows ls)
       @ ''&fields='' @ ''id,title,place_of_origin,artist_display,inscriptions,date_start,date_end''
       @ ''&sort[id]=asc''"

text \<open>Up to \<open>await fetch(apiUrl)\<close>: the loading flag is set and the request goes out.\<close>

definition fetchArtworks_start :: "app_state \<Rightarrow> app_state \<times> effect list" where
  "fetchArtworks_start st = (st\<lparr>loading := True\<rparr>, [Request (artworks_url (lazyState st))])"

text \<open>
  After the response: inside \<open>try\<close>, \<open>setArtworks(result.data)\<close> runs first and
  \<open>setTotalRecords(result.pagination.total)\<close> second; reading \<open>total\<close> of an absent
  \<open>pagination\<close> throws, which \<open>catch\<close> logs. \<open>finally\<close> clears the loading flag.
\<close>

definition fetchArtworks_resolve :: "fetch_outcome \<Rightarrow> app_state \<Rightarrow> app_state \<times> effect list" where
  "fetchArtworks_resolve outcome st =
     (case outcome of
        FetchRejected \<Rightarrow> (st\<lparr>loading := False\<rparr>, [ConsoleError ''Failed to fetch artworks:''])
      | JsonRejected \<Rightarrow> (st\<lparr>loading := False\<rparr>, [ConsoleError ''Failed to fetch artworks:''])
      | Decoded result \<Rightarrow>
          (let st1 = st\<lparr>artworks := data result\<rparr>
           in case pagination result of
                None \<Rightarrow> (st1\<lparr>loading := False\<rparr>, [ConsoleError ''Failed to fetch artworks:''])
              | Some total' \<Rightarrow> (st1\<lparr>totalRecords := total', loading := False\<rparr>, [])))"

definition fetchArtworks :: "fetch_outcome \<Rightarrow> app_state \<Rightarrow> app_state \<times> effect list" where
  "fetchArtworks outcome st =
     (let (st1, fx1) = fetchArtworks_start st;
          (st2, fx2) = fetchArtworks_resolve outcome st1
      in (st2, fx1 @ fx2))"

section \<open>The paginator\<close>

definition onPaginatorChange :: "PaginatorPageChangeEvent \<Rightarrow> app_state \<Rightarrow> app_state" where
  "onPaginatorChange event st =
     st\<lparr>lazyState := (lazyState st)\<lparr>first := ev_first event, rows := ev_rows event,
                                    page := Some (ev_page event)\<rparr>\<rparr>"


text \<open>
  The invariant \<open>pageIndex * pageSize == firstIndex\<close> of the stored page state, and the same
  equation on the fields of an event. The paginator computes the page of an event as its
  offset divided by its page size and emits offsets that are multiples of the page size.
\<close>

definition page_consistent :: "DataTableStateEvent \<Rightarrow> bool" where
  "page_consistent ls = (case page ls of None \<Rightarrow> False | Some p \<Rightarrow> p * rows ls = first ls)"

definition event_consistent :: "PaginatorPageChangeEvent \<Rightarrow> bool" where
  "event_consistent event = (ev_page event * ev_rows event = ev_first event)"

section \<open>The bulk selection (\<open>handleSelectTopN\<close>)\<close>

definition topN_url :: "int \<Rightarrow> string" where
  "topN_url count =
     ''https://api.artic.edu/api/v1/artworks?page=1&limit='' @ toString count
       @ ''&fields='' @ ''id'' @ ''&sort[id]=asc''"

text \<open>
  Up to \<open>await fetch(apiUrl)\<close>. The test \<open>isNaN(count) || count <= 0\<close> is the first two
  branches. The third component tells whether the handler is now waiting for a response.
\<close>

definition handleSelectTopN_submit :: "app_state \<Rightarrow> app_state \<times> effect list \<times> bool" where
  "handleSelectTopN_submit st =
     (case parseInt (numToSelect st) of
        None \<Rightarrow> (st, [Alert ''Please enter a valid positive number.''], False)
      | Some count \<Rightarrow>
          if count \<le> 0 then (st, [Alert ''Please enter a valid positive number.''], False)
          else (st\<lparr>loading := True\<rparr>, [Request (topN_url count)], True))"

text \<open>
  \<open>bulkAdd\<close> is the updater \<open>prevSelection => new Set([...prevSelection, ...idsToSelect])\<close>
  handed to \<open>setSelection\<close>; \<open>finally_topN\<close> is the \<open>finally\<close> block. In the continuation,
  \<open>if (result.data)\<close> skips a body without \<open>data\<close>; an array, also an empty one, is truthy.
\<close>

definition bulkAdd :: "int list \<Rightarrow> int list \<Rightarrow> int list" where
  "bulkAdd idsToSelect prevSelection = new_Set (prevSelection @ idsToSelect)"

definition finally_topN :: "app_state \<Rightarrow> app_state" where
  "finally_topN st = st\<lparr>loading := False, numToSelect := [], isPanelOpen := False\<rparr>"

definition handleSelectTopN_resolve :: "fetch_outcome \<Rightarrow> app_state \<Rightarrow> app_state \<times> effect list" where
  "handleSelectTopN_resolve outcome st =
     (case outcome of
        FetchRejected \<Rightarrow>
          (finally_topN st,
           [ConsoleError ''Failed to fetch artwork IDs for selection:'',
            Alert ''Could not select artworks. Please try again.''])
      | JsonRejected \<Rightarrow>
          (finally_topN st,
           [ConsoleError ''Failed to fetch artwork IDs for selection:'',
            Alert ''Could not select artworks. Please try again.''])
      | Decoded result \<Rightarrow>
          (case data result of
             None \<Rightarrow> (finally_topN st, [])
           | Some arts \<Rightarrow>
               (finally_topN (st\<lparr>selection := bulkAdd (map art_id arts) (selection st)\<rparr>), [])))"

definition handleSelectTopN :: "fetch_outcome \<Rightarrow> app_state \<Rightarrow> app_state \<times> effect list" where
  "handleSelectTopN outcome st =
     (let (st1, fx1, awaiting) = handleSelectTopN_submit st
      in if awaiting
         then (let (st2, fx2) = handleSelectTopN_resolve outcome st1 in (st2, fx1 @ fx2))
         else (st1, fx1))"

definition togglePanel :: "app_state \<Rightarrow> app_state" where
  "togglePanel st = st\<lparr>isPanelOpen := \<not> isPanelOpen st\<rparr>"

definition onNumChange :: "code_unit list \<Rightarrow> app_state \<Rightarrow> app_state" where
  "onNumChange v st = st\<lparr>numToSelect := v\<rparr>"

section \<open>The selection of the visible page\<close>

text \<open>
  \<open>reconcile\<close> is the updater that \<open>onSelectionChange\<close> hands to \<open>setSelection\<close>, with
  its two loops; \<open>selection_prop\<close> is the \<open>selection\<close> property of the table,
  \<open>artworks.filter(art => selection.has(art.id))\<close>. \<open>artworks.map\<close> and \<open>artworks.filter\<close>
  throw a \<open>TypeError\<close> when \<open>artworks\<close> is \<open>undefined\<close>.
\<close>

definition reconcile :: "int list \<Rightarrow> int list \<Rightarrow> int list \<Rightarrow> int list" where
  "reconcile currentPageIds newSelectionIds prevSelection =
     (let updatedSelection = new_Set prevSelection;
          updatedSelection' =
            fold (\<lambda>i u. if \<not> set_has newSelectionIds i then set_delete i u else u)
              currentPageIds updatedSelection
      in fold set_add newSelectionIds updatedSelection')"

definition onSelectionChange :: "Artwork list \<Rightarrow> app_state \<Rightarrow> js_error + app_state" where
  "onSelectionChange newSelection st =
     (case artworks st of
        None \<Rightarrow> Inl TypeError
      | Some arts \<Rightarrow>
          (let currentPageIds = new_Set (map art_id arts);
               newSelectionIds = new_Set (map art_id newSelection)
           in Inr (st\<lparr>selection := reconcile currentPageIds newSelectionIds (selection st)\<rparr>)))"

definition selection_prop :: "app_state \<Rightarrow> js_error + Artwork list" where
  "selection_prop st =
     (case artworks st of
        None \<Rightarrow> Inl TypeError
      | Some arts \<Rightarrow> Inr (filter (\<lambda>art. set_has (selection st) (art_id art)) arts))"

section \<open>Concrete states and responses\<close>

definition artwork_with_id :: "int \<Rightarrow> Artwork" where
  "artwork_with_id i =
     \<lparr>art_id = i, title = '''', place_of_origin = None, artist_display = '''',
      inscriptions = None, date_start = 0, date_end = 0\<rparr>"

definition page_A :: "Artwork list" where
  "page_A = [artwork_with_id 1, artwork_with_id 2, artwork_with_id 3]"

definition state_A :: app_state where
  "state_A = initial_state\<lparr>artworks := Some page_A, selection := [1, 2, 7]\<rparr>"

definition state_B :: app_state where
  "state_B = initial_state\<lparr>loading := True, artworks := Some page_A, totalRecords := 100,
                            selection := [2, 7]\<rparr>"

definition body_ids :: "int list \<Rightarrow> api_body" where
  "body_ids ids = \<lparr>data = Some (map artwork_with_id ids), pagination = Some 100\<rparr>"

definition panel_state :: "string \<Rightarrow> app_state" where
  "panel_state v = state_A\<lparr>isPanelOpen := True, numToSelect := lit v\<rparr>"



section \<open>The \<open>Set\<close> operations as operations on the set of members\<close>

lemma set_set_add: "set (set_add x s) = insert x (set s)"
  by (auto simp: set_add_def set_has_def)

lemma set_set_delete: "set (set_delete x s) = set s - {x}"
  by (auto simp: set_delete_def)

lemma set_fold_set_add: "set (fold set_add xs acc) = set acc \<union> set xs"
  by (induction xs arbitrary: acc) (auto simp: set_set_add)

lemma set_new_Set: "set (new_Set xs) = set xs"
  by (simp add: new_Set_def set_fold_set_add)

lemma distinct_set_add: "distinct s \<Longrightarrow> distinct (set_add x s)"
  by (simp add: set_add_def set_has_def)

lemma distinct_fold_set_add: "distinct acc \<Longrightarrow> distinct (fold set_add xs acc)"
  by (induction xs arbitrary: acc) (simp_all add: distinct_set_add)

lemma distinct_new_Set: "distinct (new_Set xs)"
  by (simp add: new_Set_def distinct_fold_set_add)

lemma set_fold_delete:
  "set (fold (\<lambda>i u. if \<not> set_has N i then set_delete i u else u) D u) = set u - (set D - set N)"
  by (induction D arbitrary: u) (auto simp: set_set_delete set_has_def)

lemma distinct_fold_delete:
  "distinct u \<Longrightarrow> distinct (fold (\<lambda>i u. if \<not> set_has N i then set_delete i u else u) D u)"
  by (induction D arbitrary: u) (simp_all add: set_delete_def)

lemma set_reconcile:
  "set (reconcile D N S) = (set S - (set D - set N)) \<union> set N"
  by (simp add: reconcile_def Let_def set_fold_set_add set_fold_delete set_new_Set)

lemma distinct_reconcile: "distinct (reconcile D N S)"
  by (simp add: reconcile_def Let_def distinct_fold_set_add distinct_fold_delete distinct_new_Set)

lemma set_size_card: "distinct s \<Longrightarrow> set_size s = card (set s)"
  by (simp add: set_size_def distinct_card)

lemma set_bulkAdd: "set (bulkAdd ids S) = set S \<union> set ids"
  by (simp add: bulkAdd_def set_new_Set)

section \<open>Decimal numerals: \<open>toString\<close> and \<open>parseInt\<close>\<close>

lemma lit_append: "lit (xs @ ys) = lit xs @ lit ys"
  by (simp add: lit_def)

lemma lit_Cons: "lit (c # cs) = of_char c # lit cs"
  by (simp add: lit_def)

lemma lit_Nil: "lit [] = []"
  by (simp add: lit_def)

lemma lit_not_Nil: "lit s \<noteq> [] \<longleftrightarrow> s \<noteq> []"
  by (simp add: lit_def)

lemma of_char_digit:
  "0 \<le> k \<Longrightarrow> k < 10 \<Longrightarrow> (of_char (char_of (48 + k :: int)) :: int) = 48 + k"
  by (simp add: of_char_of)

lemma digits10_not_Nil: "digits10 n \<noteq> []"
  by (subst digits10.simps) simp

lemma digits10_isDigit: "0 \<le> n \<Longrightarrow> list_all isDigit (lit (digits10 n))"
proof (induction n rule: digits10.induct)
  case (1 n)
  show ?case
  proof (cases "n < 10")
    case True
    with 1(2) show ?thesis
      by (subst digits10.simps) (simp add: lit_Cons lit_Nil isDigit_def of_char_digit)
  next
    case False
    have "isDigit (of_char (char_of (48 + n mod 10)))"
      by (simp add: isDigit_def of_char_digit)
    moreover have "list_all isDigit (lit (digits10 (n div 10)))"
      using False 1 by simp
    ultimately show ?thesis
      using False by (subst digits10.simps) (simp add: lit_append lit_Cons lit_Nil)
  qed
qed

lemma mathInt_snoc: "mathInt (xs @ [c]) = 10 * mathInt xs + digitValue c"
  by (simp add: mathInt_def)

lemma mathInt_digits10: "0 \<le> n \<Longrightarrow> mathInt (lit (digits10 n)) = n"
proof (induction n rule: digits10.induct)
  case (1 n)
  show ?case
  proof (cases "n < 10")
    case True
    with 1(2) show ?thesis
      by (subst digits10.simps)
         (simp add: lit_Cons lit_Nil mathInt_def digitValue_def of_char_digit)
  next
    case False
    have d: "digitValue (of_char (char_of (48 + n mod 10))) = n mod 10"
      by (simp add: digitValue_def of_char_digit)
    have "mathInt (lit (digits10 (n div 10))) = n div 10"
      using False 1 by simp
    with False d show ?thesis
      by (subst digits10.simps) (simp add: lit_append lit_Cons lit_Nil mathInt_snoc)
  qed
qed

lemma digit_not_space: "isDigit c \<Longrightarrow> \<not> isWhiteSpace c"
  by (auto simp: isDigit_def isWhiteSpace_def)

lemma digit_not_sign: "isDigit c \<Longrightarrow> c \<noteq> 43 \<and> c \<noteq> 45"
  by (auto simp: isDigit_def)

lemma sign_not_space: "\<not> isWhiteSpace 43" "\<not> isWhiteSpace 45"
  by (simp_all add: isWhiteSpace_def)

text \<open>White space, an optional sign, a run of digits, and then no digit.\<close>

lemma parseInt_digits:
  assumes "\<forall>c \<in> set ws. isWhiteSpace c"
    and "sg = [] \<or> sg = [43] \<or> sg = [45]"
    and "ds \<noteq> []" and "list_all isDigit ds"
    and "rest = [] \<or> \<not> isDigit (hd rest)"
  shows "parseInt (ws @ sg @ ds @ rest) = Some ((if sg = [45] then - 1 else 1) * mathInt ds)"
proof -
  obtain d ds' where ds: "ds = d # ds'" and d: "isDigit d"
    using assms(3,4) by (cases ds) auto
  have "dropWhile isWhiteSpace (ws @ sg @ ds @ rest) = dropWhile isWhiteSpace (sg @ ds @ rest)"
    using assms(1) by (simp add: dropWhile_append2)
  also have "\<dots> = sg @ ds @ rest"
    using assms(2) d by (auto simp: ds digit_not_space sign_not_space)
  finally have S: "dropWhile isWhiteSpace (ws @ sg @ ds @ rest) = sg @ ds @ rest" .
  have Z: "takeWhile isDigit (ds @ rest) = ds"
  proof -
    have "takeWhile isDigit (ds @ rest) = ds @ takeWhile isDigit rest"
      using assms(4) by (simp add: takeWhile_append2 list_all_iff)
    moreover have "takeWhile isDigit rest = []"
      using assms(5) by (cases rest) auto
    ultimately show ?thesis by simp
  qed
  show ?thesis
    using assms(2,3) digit_not_sign [OF d]
    by (auto simp: parseInt_def S Let_def Z) (simp_all add: ds)
qed

lemma parseInt_toString: "parseInt (lit (toString n)) = Some n"
proof (cases "n < 0")
  case True
  then have pos: "0 \<le> - n" by simp
  have "parseInt ([] @ [45] @ lit (digits10 (- n)) @ [])
          = Some ((if [45] = [45::int] then - 1 else 1) * mathInt (lit (digits10 (- n))))"
    by (rule parseInt_digits)
       (simp_all add: digits10_isDigit [OF pos] digits10_not_Nil lit_not_Nil)
  with True show ?thesis
    by (simp add: toString_def lit_Cons mathInt_digits10 [OF pos])
next
  case False
  then have pos: "0 \<le> n" by simp
  have "parseInt ([] @ [] @ lit (digits10 n) @ [])
          = Some ((if [] = [45::int] then - 1 else 1) * mathInt (lit (digits10 n)))"
    by (rule parseInt_digits)
       (simp_all add: digits10_isDigit [OF pos] digits10_not_Nil lit_not_Nil)
  with False show ?thesis
    by (simp add: toString_def mathInt_digits10 [OF pos])
qed


lemma toString_digits: "0 \<le> n \<Longrightarrow> list_all isDigit (lit (toString n))"
  by (simp add: toString_def digits10_isDigit)


lemma parseInt_examples:
  "parseInt (lit ''0'') = Some 0" "parseInt (lit ''-5'') = Some (- 5)"
  "parseInt (lit ''abc'') = None" "parseInt (lit ''5abc'') = Some 5"
  "parseInt (lit ''5.9'') = Some 5" "parseInt (lit ''15'') = Some 15"
  "parseInt (lit '' +42px'') = Some 42" "parseInt [0xA0, 0x35] = Some 5"
  by code_simp+

lemma parseInt_None_prefix:
  assumes "\<forall>c \<in> set ws. isWhiteSpace c"
    and "sg = [] \<or> sg = [43] \<or> sg = [45]"
    and "isDigit d"
  shows "parseInt (ws @ sg @ d # rest) \<noteq> None"
proof -
  have "dropWhile isWhiteSpace (ws @ sg @ d # rest) = dropWhile isWhiteSpace (sg @ d # rest)"
    using assms(1) by (simp add: dropWhile_append2)
  also have "\<dots> = sg @ d # rest"
    using assms(2,3) by (auto simp: digit_not_space sign_not_space)
  finally have S: "dropWhile isWhiteSpace (ws @ sg @ d # rest) = sg @ d # rest" .
  show ?thesis
    using assms(2,3) digit_not_sign [OF assms(3)]
    by (auto simp: parseInt_def S Let_def)
qed

lemma parseInt_Some_decompose:
  assumes "parseInt s \<noteq> None"
  shows "\<exists>ws sg d rest. s = ws @ sg @ d # rest \<and> (\<forall>c \<in> set ws. isWhiteSpace c)
           \<and> (sg = [] \<or> sg = [43] \<or> sg = [45]) \<and> isDigit d"
proof -
  define S where "S = dropWhile isWhiteSpace s"
  define S' where "S' = (if S \<noteq> [] \<and> (hd S = 43 \<or> hd S = 45) then tl S else S)"
  define sg where "sg = (if S \<noteq> [] \<and> (hd S = 43 \<or> hd S = 45) then [hd S] else [])"
  have Z: "takeWhile isDigit S' \<noteq> []"
    using assms by (auto simp: parseInt_def Let_def S_def S'_def split: if_splits)
  then obtain d rest where S'eq: "S' = d # rest" and d: "isDigit d"
    by (cases S') (auto split: if_splits)
  have "S = sg @ S'"
    by (auto simp: sg_def S'_def)
  moreover have "s = takeWhile isWhiteSpace s @ S"
    by (simp add: S_def)
  ultimately have "s = takeWhile isWhiteSpace s @ sg @ d # rest"
    using S'eq by simp
  moreover have "\<forall>c \<in> set (takeWhile isWhiteSpace s). isWhiteSpace c"
    by (auto dest: set_takeWhileD)
  moreover have "sg = [] \<or> sg = [43] \<or> sg = [45]"
    by (auto simp: sg_def)
  ultimately show ?thesis
    using d by blast
qed

section \<open>Reconciliation of the visible page's selection\<close>

text \<open>
  C1. Let the table show the records \<open>arts\<close> and let the selection-change event carry
  \<open>newSelection\<close>, records of the visible page. Then \<open>onSelectionChange\<close> succeeds, and
  in the new ledger: the identifiers removed are exactly the old members that are on the
  page and not in the new selection; the identifiers added are exactly those of the new
  selection that were not yet members; an identifier that is not on the page is a member
  after if and only if it was one before; nothing but the ledger changes.
\<close>

theorem onSelectionChange_reconciles:
  assumes "artworks st = Some arts"
    and "art_id ` set newSelection \<subseteq> art_id ` set arts"
  shows "case onSelectionChange newSelection st of
           Inl e \<Rightarrow> False
         | Inr st' \<Rightarrow>
             set (selection st) - set (selection st')
               = set (selection st) \<inter> (art_id ` set arts - art_id ` set newSelection)
           \<and> set (selection st') - set (selection st)
               = art_id ` set newSelection - set (selection st)
           \<and> (\<forall>i. i \<notin> art_id ` set arts \<longrightarrow>
                  (i \<in> set (selection st') \<longleftrightarrow> i \<in> set (selection st)))
           \<and> st' = st\<lparr>selection := selection st'\<rparr>"
proof -
  let ?D = "art_id ` set arts" and ?N = "art_id ` set newSelection" and ?S = "set (selection st)"
  let ?S' = "reconcile (new_Set (map art_id arts)) (new_Set (map art_id newSelection)) (selection st)"
  have run: "onSelectionChange newSelection st = Inr (st\<lparr>selection := ?S'\<rparr>)"
    using assms(1) by (simp add: onSelectionChange_def)
  have eq: "set ?S' = (?S - (?D - ?N)) \<union> ?N"
    by (simp add: set_reconcile set_new_Set)
  have removed: "?S - set ?S' = ?S \<inter> (?D - ?N)"
    unfolding eq by blast
  have added: "set ?S' - ?S = ?N - ?S"
    unfolding eq by blast
  have frame: "\<forall>i. i \<notin> ?D \<longrightarrow> (i \<in> set ?S' \<longleftrightarrow> i \<in> ?S)"
    unfolding eq using assms(2) by blast
  show ?thesis
    unfolding run using removed added frame by simp
qed

text \<open>
  On a page with the records 1, 2, 3 and the ledger \<open>{1, 2, 7}\<close>, an event that reports
  record 2 alone leaves \<open>{2, 7}\<close>: 1 is removed, 7 (of another page) stays.
\<close>

theorem onSelectionChange_reconciles_witness:
  "artworks state_A = Some page_A
   \<and> art_id ` set [artwork_with_id 2] \<subseteq> art_id ` set page_A
   \<and> onSelectionChange [artwork_with_id 2] state_A = Inr (state_A\<lparr>selection := [2, 7]\<rparr>)"
proof -
  have h1: "artworks state_A = Some page_A"
    by (simp add: state_A_def initial_state_def)
  have h2: "art_id ` set [artwork_with_id 2] \<subseteq> art_id ` set page_A"
    by (simp add: page_A_def artwork_with_id_def)
  have run: "onSelectionChange [artwork_with_id 2] state_A = Inr (state_A\<lparr>selection := [2, 7]\<rparr>)"
    by code_simp
  show ?thesis
    using onSelectionChange_reconciles [OF h1 h2] h1 h2 run by simp
qed

section \<open>Bulk add\<close>

text \<open>
  C2. When the bulk-identifier fetch returns the records \<open>arts\<close>, the ledger after the
  continuation of \<open>handleSelectTopN\<close> is the union of the ledger before with the
  identifiers of \<open>arts\<close>; every earlier member is still a member.
\<close>

theorem bulkAdd_is_union:
  assumes "data result = Some arts"
  shows "set (selection (fst (handleSelectTopN_resolve (Decoded result) st)))
           = set (selection st) \<union> art_id ` set arts
         \<and> set (selection st) \<subseteq> set (selection (fst (handleSelectTopN_resolve (Decoded result) st)))"
  using assms by (auto simp: handleSelectTopN_resolve_def finally_topN_def set_bulkAdd)

text \<open>The ledger \<open>{2, 7}\<close> and the returned identifiers 1, 2, 3: 7 stays.\<close>

theorem bulkAdd_is_union_witness:
  "data (body_ids [1, 2, 3]) = Some (map artwork_with_id [1, 2, 3])
   \<and> selection (fst (handleSelectTopN_resolve (Decoded (body_ids [1, 2, 3])) state_B)) = [2, 7, 1, 3]
   \<and> set [2, 7, 1, 3] = set (selection state_B) \<union> art_id ` set (map artwork_with_id [1, 2, 3])"
proof -
  have h: "data (body_ids [1, 2, 3]) = Some (map artwork_with_id [1, 2, 3])"
    by (simp add: body_ids_def)
  have run: "selection (fst (handleSelectTopN_resolve (Decoded (body_ids [1, 2, 3])) state_B)) = [2, 7, 1, 3]"
    by code_simp
  show ?thesis
    using bulkAdd_is_union [OF h, of state_B] h run by simp
qed

section \<open>A page fetch that fails\<close>

text \<open>
  When \<open>fetch\<close> or \<open>response.json()\<close> rejects, nothing but the loading flag changes.
\<close>

lemma fetchArtworks_rejected:
  "outcome = FetchRejected \<or> outcome = JsonRejected \<Longrightarrow>
     fetchArtworks_resolve outcome st = (st\<lparr>loading := False\<rparr>, [ConsoleError ''Failed to fetch artworks:''])"
  by (auto simp: fetchArtworks_resolve_def)

text \<open>
  C3. The claim is that a page fetch that fails clears the loading flag and leaves both
  the displayed page and the total record count as they were. The code does not do so
  when the failure is raised by \<open>result.pagination.total\<close>: \<open>setArtworks(result.data)\<close> has
  run by then. With page A displayed and a total of 100, a body that holds \<open>data\<close> and no
  \<open>pagination\<close> replaces the displayed page, keeps the total and logs the failure; a body
  with neither member (an error body of the endpoint) leaves \<open>artworks\<close> undefined.
\<close>

theorem fetchArtworks_partial_update:
  "fetchArtworks_resolve (Decoded \<lparr>data = Some [artwork_with_id 11], pagination = None\<rparr>) state_B
     = (state_B\<lparr>artworks := Some [artwork_with_id 11], loading := False\<rparr>,
        [ConsoleError ''Failed to fetch artworks:''])
   \<and> artworks state_B = Some page_A \<and> Some page_A \<noteq> Some [artwork_with_id 11]
   \<and> fetchArtworks_resolve (Decoded \<lparr>data = None, pagination = None\<rparr>) state_B
     = (state_B\<lparr>artworks := None, loading := False\<rparr>,
        [ConsoleError ''Failed to fetch artworks:''])"
  by (simp add: fetchArtworks_resolve_def state_B_def page_A_def)

section \<open>Invalid bulk-select input\<close>

text \<open>
  C4. When the input of the bulk-select panel parses to \<open>NaN\<close> or to a number that is at
  most zero, \<open>handleSelectTopN\<close> shows one alert and does nothing else: no request goes
  out, and the state (the ledger, the input, the panel flag) is what it was.
\<close>

theorem invalid_input_rejected:
  assumes "parseInt (numToSelect st) = None \<or> (\<exists>n. parseInt (numToSelect st) = Some n \<and> n \<le> 0)"
  shows "handleSelectTopN outcome st = (st, [Alert ''Please enter a valid positive number.''])"
  using assms by (auto simp: handleSelectTopN_def handleSelectTopN_submit_def)

text \<open>The inputs \<open>0\<close>, \<open>-5\<close> and \<open>abc\<close>, with the panel open.\<close>

theorem invalid_input_rejected_witness:
  "(parseInt (numToSelect (panel_state ''0'')) = None
      \<or> (\<exists>n. parseInt (numToSelect (panel_state ''0'')) = Some n \<and> n \<le> 0))
   \<and> (parseInt (numToSelect (panel_state ''-5'')) = None
      \<or> (\<exists>n. parseInt (numToSelect (panel_state ''-5'')) = Some n \<and> n \<le> 0))
   \<and> (parseInt (numToSelect (panel_state ''abc'')) = None
      \<or> (\<exists>n. parseInt (numToSelect (panel_state ''abc'')) = Some n \<and> n \<le> 0))
   \<and> handleSelectTopN (Decoded (body_ids [1])) (panel_state ''0'')
       = (panel_state ''0'', [Alert ''Please enter a valid positive number.''])
   \<and> handleSelectTopN (Decoded (body_ids [1])) (panel_state ''-5'')
       = (panel_state ''-5'', [Alert ''Please enter a valid positive number.''])
   \<and> handleSelectTopN (Decoded (body_ids [1])) (panel_state ''abc'')
       = (panel_state ''abc'', [Alert ''Please enter a valid positive number.''])"
proof -
  have h0: "parseInt (numToSelect (panel_state ''0'')) = None
      \<or> (\<exists>n. parseInt (numToSelect (panel_state ''0'')) = Some n \<and> n \<le> 0)"
    by (simp add: panel_state_def parseInt_examples)
  have h5: "parseInt (numToSelect (panel_state ''-5'')) = None
      \<or> (\<exists>n. parseInt (numToSelect (panel_state ''-5'')) = Some n \<and> n \<le> 0)"
    by (simp add: panel_state_def parseInt_examples)
  have ha: "parseInt (numToSelect (panel_state ''abc'')) = None
      \<or> (\<exists>n. parseInt (numToSelect (panel_state ''abc'')) = Some n \<and> n \<le> 0)"
    by (simp add: panel_state_def parseInt_examples)
  show ?thesis
    using invalid_input_rejected [OF h0] invalid_input_rejected [OF h5]
      invalid_input_rejected [OF ha] h0 h5 ha
    by blast
qed

section \<open>The page number of a page fetch\<close>



section \<open>The selection handed to the table\<close>

text \<open>
  C6. With the records \<open>arts\<close> displayed, the \<open>selection\<close> property handed to the table is
  \<open>arts\<close> filtered by membership of the record's identifier in the ledger: its records
  are the displayed records whose identifier is in the ledger, its identifiers are the
  intersection of the ledger with the identifiers of the page, and no record in it has an
  identifier outside the ledger.
\<close>

theorem selection_prop_is_intersection:
  assumes "artworks st = Some arts"
  shows "case selection_prop st of
           Inl e \<Rightarrow> False
         | Inr sel \<Rightarrow>
             sel = filter (\<lambda>art. art_id art \<in> set (selection st)) arts
           \<and> set sel = {art \<in> set arts. art_id art \<in> set (selection st)}
           \<and> art_id ` set sel = set (selection st) \<inter> art_id ` set arts
           \<and> (\<forall>art \<in> set sel. art_id art \<in> set (selection st))"
  using assms by (auto simp: selection_prop_def set_has_def)

text \<open>Page A with the ledger \<open>{1, 2, 7}\<close>: records 1 and 2 are marked, record 3 is not.\<close>

theorem selection_prop_is_intersection_witness:
  "artworks state_A = Some page_A
   \<and> selection_prop state_A = Inr [artwork_with_id 1, artwork_with_id 2]"
proof -
  have h: "artworks state_A = Some page_A"
    by (simp add: state_A_def initial_state_def)
  have run: "selection_prop state_A = Inr [artwork_with_id 1, artwork_with_id 2]"
    by code_simp
  show ?thesis
    using selection_prop_is_intersection [OF h] h run by simp
qed

section \<open>The end of a bulk-select submission\<close>

text \<open>
  C7. When the input parses to a positive number, then whatever the fetch does, the state
  after \<open>handleSelectTopN\<close> has the loading flag cleared, the input empty and the panel
  closed; when the fetch or the decoding rejects, the alert is among the effects and the
  ledger is the one before. The same holds of the continuation alone, run on any later
  state \<open>later\<close> (other handlers may have run while the request was pending).
\<close>

theorem valid_submission_returns_to_closed:
  assumes "parseInt (numToSelect st) = Some n" and "0 < n"
  shows "(case handleSelectTopN outcome st of
            (st', fx) \<Rightarrow>
              \<not> loading st' \<and> numToSelect st' = [] \<and> \<not> isPanelOpen st'
            \<and> (outcome = FetchRejected \<or> outcome = JsonRejected \<longrightarrow>
                 Alert ''Could not select artworks. Please try again.'' \<in> set fx
               \<and> selection st' = selection st))
       \<and> (case handleSelectTopN_resolve outcome later of
            (st', fx) \<Rightarrow>
              \<not> loading st' \<and> numToSelect st' = [] \<and> \<not> isPanelOpen st'
            \<and> (outcome = FetchRejected \<or> outcome = JsonRejected \<longrightarrow>
                 Alert ''Could not select artworks. Please try again.'' \<in> set fx
               \<and> selection st' = selection later))"
  using assms
  by (simp add: handleSelectTopN_def handleSelectTopN_submit_def handleSelectTopN_resolve_def
      finally_topN_def split: fetch_outcome.splits option.splits)

text \<open>The input \<open>15\<close> with a transport failure.\<close>

theorem valid_submission_returns_to_closed_witness:
  "parseInt (numToSelect (panel_state ''15'')) = Some 15 \<and> (0::int) < 15
   \<and> handleSelectTopN FetchRejected (panel_state ''15'')
       = (state_A,
          [Request ''https://api.artic.edu/api/v1/artworks?page=1&limit=15&fields=id&sort[id]=asc'',
           ConsoleError ''Failed to fetch artwork IDs for selection:'',
           Alert ''Could not select artworks. Please try again.''])
   \<and> \<not> loading state_A \<and> numToSelect state_A = [] \<and> \<not> isPanelOpen state_A"
proof -
  have h: "parseInt (numToSelect (panel_state ''15'')) = Some 15"
    by (simp add: panel_state_def parseInt_examples)
  have run: "handleSelectTopN FetchRejected (panel_state ''15'')
       = (state_A,
          [Request ''https://api.artic.edu/api/v1/artworks?page=1&limit=15&fields=id&sort[id]=asc'',
           ConsoleError ''Failed to fetch artwork IDs for selection:'',
           Alert ''Could not select artworks. Please try again.''])"
    by code_simp
  show ?thesis
    using valid_submission_returns_to_closed [OF h, of FetchRejected "panel_state ''15''"] h run
    by simp
qed

section \<open>The page state under page-change events\<close>

text \<open>
  \<open>onPaginatorChange\<close> neither derives nor checks the three fields: the stored page state
  satisfies the invariant exactly when the event does.
\<close>

lemma onPaginatorChange_consistent_iff:
  "page_consistent (lazyState (onPaginatorChange event st)) \<longleftrightarrow> event_consistent event"
  by (simp add: onPaginatorChange_def page_consistent_def event_consistent_def)






section \<open>Who writes the ledger\<close>

text \<open>
  C9. Neither part of the page fetch changes the ledger, whatever the response; the
  submission of a bulk selection leaves the ledger as it is until the response arrives,
  and its continuation keeps every member of the ledger it finds.
\<close>

theorem ledger_write_paths:
  "selection (fst (fetchArtworks_start st)) = selection st
   \<and> selection (fst (fetchArtworks_resolve outcome st)) = selection st
   \<and> selection (fst (fetchArtworks outcome st)) = selection st
   \<and> selection (fst (handleSelectTopN_submit st)) = selection st
   \<and> set (selection st) \<subseteq> set (selection (fst (handleSelectTopN_resolve outcome st)))
   \<and> set (selection st) \<subseteq> set (selection (fst (handleSelectTopN outcome st)))"
  by (auto simp: fetchArtworks_start_def fetchArtworks_resolve_def fetchArtworks_def
      handleSelectTopN_submit_def handleSelectTopN_resolve_def handleSelectTopN_def
      finally_topN_def set_bulkAdd Let_def
      split: fetch_outcome.splits option.splits)

theorem ledger_write_paths_witness:
  "selection (fst (fetchArtworks (Decoded (body_ids [4, 5])) state_A)) = [1, 2, 7]
   \<and> selection (fst (fetchArtworks FetchRejected state_A)) = [1, 2, 7]
   \<and> selection (fst (handleSelectTopN (Decoded (body_ids [2, 4])) (panel_state ''2''))) = [1, 2, 7, 4]"
proof -
  have a: "selection state_A = [1, 2, 7]" "selection (panel_state ''2'') = [1, 2, 7]"
    by (simp_all add: panel_state_def state_A_def)
  have run: "selection (fst (handleSelectTopN (Decoded (body_ids [2, 4])) (panel_state ''2''))) = [1, 2, 7, 4]"
    by code_simp
  show ?thesis
    using ledger_write_paths [of state_A "Decoded (body_ids [4, 5])"]
      ledger_write_paths [of state_A FetchRejected] a run
    by simp
qed

section \<open>Which inputs \<open>parseInt\<close> accepts\<close>

text \<open>
  C10. (1) When \<open>parseInt\<close> of the input is a positive safe integer \<open>n\<close>, the submission is
  accepted: the loading flag is set and one request goes out, whose address carries after
  \<open>limit=\<close> a run of decimal digits that denotes \<open>n\<close>. (2) An input made of white space, an
  optional plus sign, a run of decimal digits and then anything that does not start with a
  digit parses to the number the digits denote in base ten, whatever follows them. (3) So
  \<open>5abc\<close> and \<open>5.9\<close> parse to 5, \<open>15\<close> to 15 and \<open> +42px\<close> to 42. (4) \<open>parseInt\<close> yields \<open>NaN\<close>
  exactly for the inputs that are not of the form: white space, an optional sign, a digit,
  anything.
\<close>

theorem parseInt_prefix_accepted:
  "(parseInt (numToSelect st) = Some n \<and> 0 < n \<and> isSafeInteger n \<longrightarrow>
      (\<exists>ds. handleSelectTopN_submit st =
               (st\<lparr>loading := True\<rparr>,
                [Request (''https://api.artic.edu/api/v1/artworks?page=1&limit='' @ ds
                   @ ''&fields=id&sort[id]=asc'')],
                True)
           \<and> list_all isDigit (lit ds) \<and> parseInt (lit ds) = Some n))
   \<and> ((\<forall>c \<in> set ws. isWhiteSpace c) \<and> (sg = [] \<or> sg = [43]) \<and> digits \<noteq> []
        \<and> list_all isDigit digits \<and> (rest = [] \<or> \<not> isDigit (hd rest))
        \<and> isSafeInteger (foldl (\<lambda>acc c. 10 * acc + (c - 48)) 0 digits) \<longrightarrow>
      parseInt (ws @ sg @ digits @ rest) = Some (foldl (\<lambda>acc c. 10 * acc + (c - 48)) 0 digits))
   \<and> parseInt (lit ''5abc'') = Some 5
   \<and> parseInt (lit ''5.9'') = Some 5
   \<and> parseInt (lit ''15'') = Some 15
   \<and> parseInt (lit '' +42px'') = Some 42
   \<and> (parseInt s = None \<longleftrightarrow>
        \<not> (\<exists>ws' sg' d rest'. s = ws' @ sg' @ d # rest' \<and> (\<forall>c \<in> set ws'. isWhiteSpace c)
              \<and> (sg' = [] \<or> sg' = [43] \<or> sg' = [45]) \<and> isDigit d))"
proof -
  have accepted: "parseInt (numToSelect st) = Some n \<and> 0 < n \<and> isSafeInteger n \<longrightarrow>
      (\<exists>ds. handleSelectTopN_submit st =
               (st\<lparr>loading := True\<rparr>,
                [Request (''https://api.artic.edu/api/v1/artworks?page=1&limit='' @ ds
                   @ ''&fields=id&sort[id]=asc'')],
                True)
           \<and> list_all isDigit (lit ds) \<and> parseInt (lit ds) = Some n)"
  proof (intro impI)
    assume a: "parseInt (numToSelect st) = Some n \<and> 0 < n \<and> isSafeInteger n"
    then have "handleSelectTopN_submit st =
               (st\<lparr>loading := True\<rparr>,
                [Request (''https://api.artic.edu/api/v1/artworks?page=1&limit='' @ toString n
                   @ ''&fields=id&sort[id]=asc'')],
                True)"
      by (simp add: handleSelectTopN_submit_def topN_url_def)
    moreover have "list_all isDigit (lit (toString n))"
      using a by (simp add: toString_digits)
    ultimately show "\<exists>ds. handleSelectTopN_submit st =
               (st\<lparr>loading := True\<rparr>,
                [Request (''https://api.artic.edu/api/v1/artworks?page=1&limit='' @ ds
                   @ ''&fields=id&sort[id]=asc'')],
                True)
           \<and> list_all isDigit (lit ds) \<and> parseInt (lit ds) = Some n"
      using parseInt_toString [of n] by blast
  qed
  have prefix: "(\<forall>c \<in> set ws. isWhiteSpace c) \<and> (sg = [] \<or> sg = [43]) \<and> digits \<noteq> []
        \<and> list_all isDigit digits \<and> (rest = [] \<or> \<not> isDigit (hd rest))
        \<and> isSafeInteger (foldl (\<lambda>acc c. 10 * acc + (c - 48)) 0 digits) \<longrightarrow>
      parseInt (ws @ sg @ digits @ rest) = Some (foldl (\<lambda>acc c. 10 * acc + (c - 48)) 0 digits)"
  proof (intro impI)
    assume a: "(\<forall>c \<in> set ws. isWhiteSpace c) \<and> (sg = [] \<or> sg = [43]) \<and> digits \<noteq> []
        \<and> list_all isDigit digits \<and> (rest = [] \<or> \<not> isDigit (hd rest))
        \<and> isSafeInteger (foldl (\<lambda>acc c. 10 * acc + (c - 48)) 0 digits)"
    then have "parseInt (ws @ sg @ digits @ rest)
                 = Some ((if sg = [45] then - 1 else 1) * mathInt digits)"
      by (intro parseInt_digits) auto
    moreover have "sg \<noteq> [45]"
      using a by auto
    ultimately show "parseInt (ws @ sg @ digits @ rest)
                       = Some (foldl (\<lambda>acc c. 10 * acc + (c - 48)) 0 digits)"
      by (simp add: mathInt_def digitValue_def)
  qed
  have nan: "parseInt s = None \<longleftrightarrow>
        \<not> (\<exists>ws' sg' d rest'. s = ws' @ sg' @ d # rest' \<and> (\<forall>c \<in> set ws'. isWhiteSpace c)
              \<and> (sg' = [] \<or> sg' = [43] \<or> sg' = [45]) \<and> isDigit d)"
    using parseInt_None_prefix parseInt_Some_decompose [of s] by blast
  show ?thesis
    using accepted prefix nan parseInt_examples(4,5,6,7) by blast
qed

text \<open>
  The inputs \<open>5abc\<close>, \<open>5.9\<close>, \<open>15\<close> and \<open> +42px\<close> submitted from the open panel ask for
  \<open>limit=5\<close>, \<open>limit=5\<close>, \<open>limit=15\<close> and \<open>limit=42\<close>.
\<close>

theorem parseInt_prefix_accepted_witness:
  "parseInt (numToSelect (panel_state ''5abc'')) = Some 5 \<and> (0::int) < 5 \<and> isSafeInteger 5
   \<and> handleSelectTopN_submit (panel_state ''5abc'')
       = ((panel_state ''5abc'')\<lparr>loading := True\<rparr>,
          [Request ''https://api.artic.edu/api/v1/artworks?page=1&limit=5&fields=id&sort[id]=asc''],
          True)
   \<and> parseInt (numToSelect (panel_state ''5.9'')) = Some 5
   \<and> handleSelectTopN_submit (panel_state ''5.9'')
       = ((panel_state ''5.9'')\<lparr>loading := True\<rparr>,
          [Request ''https://api.artic.edu/api/v1/artworks?page=1&limit=5&fields=id&sort[id]=asc''],
          True)
   \<and> parseInt (numToSelect (panel_state ''15'')) = Some 15 \<and> (0::int) < 15 \<and> isSafeInteger 15
   \<and> handleSelectTopN_submit (panel_state ''15'')
       = ((panel_state ''15'')\<lparr>loading := True\<rparr>,
          [Request ''https://api.artic.edu/api/v1/artworks?page=1&limit=15&fields=id&sort[id]=asc''],
          True)
   \<and> parseInt (numToSelect (panel_state '' +42px'')) = Some 42 \<and> (0::int) < 42 \<and> isSafeInteger 42
   \<and> handleSelectTopN_submit (panel_state '' +42px'')
       = ((panel_state '' +42px'')\<lparr>loading := True\<rparr>,
          [Request ''https://api.artic.edu/api/v1/artworks?page=1&limit=42&fields=id&sort[id]=asc''],
          True)"
proof -
  have h1: "parseInt (numToSelect (panel_state ''5abc'')) = Some 5 \<and> (0::int) < 5 \<and> isSafeInteger 5"
    by (simp add: panel_state_def parseInt_examples isSafeInteger_def)
  have h2: "parseInt (numToSelect (panel_state ''5.9'')) = Some 5 \<and> (0::int) < 5 \<and> isSafeInteger 5"
    by (simp add: panel_state_def parseInt_examples isSafeInteger_def)
  have h3: "parseInt (numToSelect (panel_state ''15'')) = Some 15 \<and> (0::int) < 15 \<and> isSafeInteger 15"
    by (simp add: panel_state_def parseInt_examples isSafeInteger_def)
  have h4: "parseInt (numToSelect (panel_state '' +42px'')) = Some 42 \<and> (0::int) < 42 \<and> isSafeInteger 42"
    by (simp add: panel_state_def parseInt_examples isSafeInteger_def)
  have t: "toString 5 = ''5''" "toString 15 = ''15''" "toString 42 = ''42''"
    by code_simp+
  have r1: "handleSelectTopN_submit (panel_state ''5abc'')
       = ((panel_state ''5abc'')\<lparr>loading := True\<rparr>,
          [Request ''https://api.artic.edu/api/v1/artworks?page=1&limit=5&fields=id&sort[id]=asc''],
          True)"
    using h1 by (simp add: handleSelectTopN_submit_def topN_url_def t)
  have r2: "handleSelectTopN_submit (panel_state ''5.9'')
       = ((panel_state ''5.9'')\<lparr>loading := True\<rparr>,
          [Request ''https://api.artic.edu/api/v1/artworks?page=1&limit=5&fields=id&sort[id]=asc''],
          True)"
    using h2 by (simp add: handleSelectTopN_submit_def topN_url_def t)
  have r3: "handleSelectTopN_submit (panel_state ''15'')
       = ((panel_state ''15'')\<lparr>loading := True\<rparr>,
          [Request ''https://api.artic.edu/api/v1/artworks?page=1&limit=15&fields=id&sort[id]=asc''],
          True)"
    using h3 by (simp add: handleSelectTopN_submit_def topN_url_def t)
  have r4: "handleSelectTopN_submit (panel_state '' +42px'')
       = ((panel_state '' +42px'')\<lparr>loading := True\<rparr>,
          [Request ''https://api.artic.edu/api/v1/artworks?page=1&limit=42&fields=id&sort[id]=asc''],
          True)"
    using h4 by (simp add: handleSelectTopN_submit_def topN_url_def t)
  show ?thesis
    using parseInt_prefix_accepted [of "panel_state ''5abc''" 5]
      parseInt_prefix_accepted [of "panel_state ''15''" 15] h1 h2 h3 h4 r1 r2 r3 r4
    by simp
qed

end
